theory Spec2Isabelle
  imports Main "HOL-Library.Multiset"
begin

section \<open>The relational store\<close>

text \<open>
  The handlers and the usage tracker talk to a relational store through a client whose
  queries never throw: each returns a pair \<open>{data, error}\<close>. The store is modelled as a
  record of its two tables. Timestamps are instants (milliseconds since the epoch), so
  the store's comparison of two timestamps is the order of \<open>int\<close>. Row identifiers are
  assigned by the store; they are modelled as a counter.
\<close>

record organization =
  stripe_customer_id :: "string option"
  stripe_subscription_id :: "string option"
  subscription_status :: "string option"
  subscription_plan :: "string option"
  seat_count :: int
  updated_at :: int

record usage_values =
  organization_id :: string
  dimension :: string
  quantity :: int
  timestamp :: int
  stripe_usage_record_id :: "string option"

record usage_row = usage_values +
  row_id :: nat

record db =
  organizations :: "string \<rightharpoonup> organization"
  usage_records :: "usage_row list"
  next_id :: nat
  online :: bool

text \<open>
  The declaration of the table \<open>usage_records\<close> is not among the sources, so what the
  table refuses is a parameter: a function from the rows present and the values offered
  to the message of the violated constraint, if any.
\<close>

type_synonym table_constraint = "usage_row list \<Rightarrow> usage_values \<Rightarrow> string option"

definition no_constraint :: table_constraint where
  "no_constraint rows v = None"

definition store_unavailable :: string where
  "store_unavailable = ''store unavailable''"

text \<open>\<open>.single()\<close>: the row when the query yields exactly one, otherwise no data.\<close>

fun single_row :: "'a list \<Rightarrow> 'a option" where
  "single_row [r] = Some r"
| "single_row rs = None"

definition with_id :: "usage_values \<Rightarrow> nat \<Rightarrow> usage_row" where
  "with_id v i =
     \<lparr>organization_id = organization_id v, dimension = dimension v, quantity = quantity v,
      timestamp = timestamp v, stripe_usage_record_id = stripe_usage_record_id v,
      row_id = i\<rparr>"

text \<open>
  \<open>from("usage_records").insert(values).select().single()\<close>: on success the new row, on
  refusal the error message and an unchanged table.
\<close>

definition insert_usage ::
  "table_constraint \<Rightarrow> db \<Rightarrow> usage_values \<Rightarrow> db \<times> (string + usage_row)" where
  "insert_usage chk d v =
     (if \<not> online d then (d, Inl store_unavailable)
      else case chk (usage_records d) v of
        Some msg \<Rightarrow> (d, Inl msg)
      | None \<Rightarrow>
          (d\<lparr>usage_records := usage_records d @ [with_id v (next_id d)],
             next_id := Suc (next_id d)\<rparr>,
           Inr (with_id v (next_id d))))"

text \<open>
  \<open>from("usage_records").insert(list).select()\<close>: one statement, so either every row is
  written or none is.
\<close>

fun insert_rows ::
  "table_constraint \<Rightarrow> usage_row list \<Rightarrow> nat \<Rightarrow> usage_values list
     \<Rightarrow> string + (usage_row list \<times> nat \<times> usage_row list)" where
  "insert_rows chk rows n [] = Inr (rows, n, [])"
| "insert_rows chk rows n (v # vs) =
     (case chk rows v of
        Some msg \<Rightarrow> Inl msg
      | None \<Rightarrow>
          (case insert_rows chk (rows @ [with_id v n]) (Suc n) vs of
             Inl msg \<Rightarrow> Inl msg
           | Inr (rows', n', new) \<Rightarrow> Inr (rows', n', with_id v n # new)))"

definition insert_many ::
  "table_constraint \<Rightarrow> db \<Rightarrow> usage_values list \<Rightarrow> db \<times> (string + usage_row list)" where
  "insert_many chk d vs =
     (if \<not> online d then (d, Inl store_unavailable)
      else case insert_rows chk (usage_records d) (next_id d) vs of
        Inl msg \<Rightarrow> (d, Inl msg)
      | Inr (rows', n', new) \<Rightarrow> (d\<lparr>usage_records := rows', next_id := n'\<rparr>, Inr new))"

text \<open>
  \<open>from("organizations").update(values).eq("id", oid)\<close>: changes the row with that id if
  there is one. The result of the query carries the error, if any; the store is
  unchanged then.
\<close>

definition update_organization ::
  "db \<Rightarrow> string \<Rightarrow> (organization \<Rightarrow> organization) \<Rightarrow> db" where
  "update_organization d oid f =
     (if \<not> online d then d
      else case organizations d oid of
        None \<Rightarrow> d
      | Some r \<Rightarrow> d\<lparr>organizations := (organizations d)(oid \<mapsto> f r)\<rparr>)"

section \<open>The usage tracker\<close>

datatype error = Error string

record track_result =
  result_id :: nat
  alreadyRecorded :: bool

text \<open>A JavaScript string is truthy when it is present and not empty.\<close>

fun truthy :: "string option \<Rightarrow> bool" where
  "truthy None = False"
| "truthy (Some s) = (s \<noteq> [])"

definition same_key :: "string \<Rightarrow> string \<Rightarrow> string \<Rightarrow> usage_row \<Rightarrow> bool" where
  "same_key org dim k r =
     (organization_id r = org \<and> dimension r = dim \<and> stripe_usage_record_id r = Some k)"

text \<open>
  \<open>trackUsage\<close> awaits the store twice: once for the look-up of the idempotency key and
  once for the insert. The two parts are \<open>trackUsage_lookup\<close>, which yields the value of
  \<open>existing\<close>, and \<open>trackUsage_write\<close>; \<open>trackUsage\<close> is one after the other. The error of
  the look-up is not read by the source: a failed look-up is \<open>existing = null\<close>.
\<close>

definition trackUsage_lookup :: "string \<Rightarrow> db \<Rightarrow> string \<Rightarrow> string option \<Rightarrow> nat option" where
  "trackUsage_lookup org d dim idempotencyKey =
     (case idempotencyKey of
        None \<Rightarrow> None
      | Some k \<Rightarrow>
          if \<not> truthy (Some k) then None
          else if \<not> online d then None
          else map_option row_id (single_row (filter (same_key org dim k) (usage_records d))))"

definition trackUsage_write ::
  "table_constraint \<Rightarrow> string \<Rightarrow> int \<Rightarrow> db \<Rightarrow> string \<Rightarrow> int \<Rightarrow> int option \<Rightarrow> string option
     \<Rightarrow> nat option \<Rightarrow> db \<times> (error + track_result)" where
  "trackUsage_write chk org now d dim qty ts idempotencyKey existing =
     (case existing of
        Some i \<Rightarrow> (d, Inr \<lparr>result_id = i, alreadyRecorded = True\<rparr>)
      | None \<Rightarrow>
          (case insert_usage chk d
                  \<lparr>organization_id = org, dimension = dim, quantity = qty,
                   timestamp = (case ts of None \<Rightarrow> now | Some t \<Rightarrow> t),
                   stripe_usage_record_id = idempotencyKey\<rparr> of
             (d', Inl msg) \<Rightarrow> (d', Inl (Error (''Failed to track usage: '' @ msg)))
           | (d', Inr r) \<Rightarrow> (d', Inr \<lparr>result_id = row_id r, alreadyRecorded = False\<rparr>)))"

definition trackUsage ::
  "table_constraint \<Rightarrow> string \<Rightarrow> int \<Rightarrow> db \<Rightarrow> string \<Rightarrow> int \<Rightarrow> int option \<Rightarrow> string option
     \<Rightarrow> db \<times> (error + track_result)" where
  "trackUsage chk org now d dim qty ts idempotencyKey =
     trackUsage_write chk org now d dim qty ts idempotencyKey
       (trackUsage_lookup org d dim idempotencyKey)"

text \<open>
  \<open>getUsageSummary\<close>: the rows of the organization and dimension whose timestamp is
  \<open>gte\<close> the start and \<open>lte\<close> the end, ordered by timestamp ascending; the query selects
  the columns \<open>quantity\<close> and \<open>timestamp\<close>.
\<close>

record usage_sample =
  sample_quantity :: int
  sample_timestamp :: int

record usage_summary =
  totalUsage :: int
  recordCount :: nat
  records :: "usage_sample list"
  period_start :: int
  period_end :: int

definition sample :: "usage_row \<Rightarrow> usage_sample" where
  "sample r = \<lparr>sample_quantity = quantity r, sample_timestamp = timestamp r\<rparr>"

definition select_usage ::
  "db \<Rightarrow> string \<Rightarrow> string \<Rightarrow> int \<Rightarrow> int \<Rightarrow> string + usage_sample list" where
  "select_usage d org dim startDate endDate =
     (if \<not> online d then Inl store_unavailable
      else Inr (map sample (sort_key timestamp
        (filter (\<lambda>r. organization_id r = org \<and> dimension r = dim \<and>
                      startDate \<le> timestamp r \<and> timestamp r \<le> endDate)
           (usage_records d)))))"

definition getUsageSummary ::
  "string \<Rightarrow> db \<Rightarrow> string \<Rightarrow> int \<Rightarrow> int \<Rightarrow> error + usage_summary" where
  "getUsageSummary org d dim startDate endDate =
     (case select_usage d org dim startDate endDate of
        Inl msg \<Rightarrow> Inl (Error (''Failed to get usage summary: '' @ msg))
      | Inr data \<Rightarrow>
          Inr \<lparr>totalUsage = foldl (\<lambda>sum record. sum + sample_quantity record) 0 data,
               recordCount = length data,
               records = data,
               period_start = startDate,
               period_end = endDate\<rparr>)"

text \<open>\<open>batchTrackUsage\<close>: the items are mapped to rows and written by one insert.\<close>

record usage_item =
  batch_dimension :: string
  batch_quantity :: int
  batch_timestamp :: "int option"
  batch_idempotencyKey :: "string option"

definition batchTrackUsage ::
  "table_constraint \<Rightarrow> string \<Rightarrow> int \<Rightarrow> db \<Rightarrow> usage_item list
     \<Rightarrow> db \<times> (error + usage_row list)" where
  "batchTrackUsage chk org now d recs =
     (case insert_many chk d
             (map (\<lambda>record.
                     \<lparr>organization_id = org, dimension = batch_dimension record,
                      quantity = batch_quantity record,
                      timestamp = (case batch_timestamp record of None \<Rightarrow> now | Some t \<Rightarrow> t),
                      stripe_usage_record_id = batch_idempotencyKey record\<rparr>) recs) of
        (d', Inl msg) \<Rightarrow> (d', Inl (Error (''Failed to batch track usage: '' @ msg)))
      | (d', Inr data) \<Rightarrow> (d', Inr data))"

text \<open>
  Sequential retries: the same call of \<open>trackUsage\<close> once for each reading of the clock
  in the list, each on the store the one before left.
\<close>

fun trackUsage_repeat ::
  "table_constraint \<Rightarrow> string \<Rightarrow> string \<Rightarrow> int \<Rightarrow> int option \<Rightarrow> string option
     \<Rightarrow> int list \<Rightarrow> db \<Rightarrow> db \<times> (error + track_result) list" where
  "trackUsage_repeat chk org dim qty ts key [] d = (d, [])"
| "trackUsage_repeat chk org dim qty ts key (now # nows) d =
     (case trackUsage chk org now d dim qty ts key of
        (d', r) \<Rightarrow>
          (case trackUsage_repeat chk org dim qty ts key nows d' of
             (d'', rs) \<Rightarrow> (d'', r # rs)))"

text \<open>
  Requests are served concurrently, and a call of \<open>trackUsage\<close> can be suspended at each
  of its two awaits. A call in flight is in one of three states, \<open>advance\<close> runs it to
  its next await, and \<open>run_schedule\<close> runs several calls in the order a schedule gives:
  each entry names the call that proceeds next.
\<close>

datatype call_state =
  Started
| Looked "nat option"
| Finished "error + track_result"

record call_args =
  call_dimension :: string
  call_quantity :: int
  call_timestamp :: "int option"
  call_key :: "string option"

fun advance ::
  "table_constraint \<Rightarrow> string \<Rightarrow> int \<Rightarrow> call_args \<Rightarrow> db \<Rightarrow> call_state \<Rightarrow> db \<times> call_state" where
  "advance chk org now a d Started =
     (d, Looked (trackUsage_lookup org d (call_dimension a) (call_key a)))"
| "advance chk org now a d (Looked existing) =
     (case trackUsage_write chk org now d (call_dimension a) (call_quantity a)
             (call_timestamp a) (call_key a) existing of
        (d', r) \<Rightarrow> (d', Finished r))"
| "advance chk org now a d (Finished r) = (d, Finished r)"

fun run_schedule ::
  "table_constraint \<Rightarrow> string \<Rightarrow> int \<Rightarrow> call_args list \<Rightarrow> nat list
     \<Rightarrow> db \<times> call_state list \<Rightarrow> db \<times> call_state list" where
  "run_schedule chk org now calls [] s = s"
| "run_schedule chk org now calls (i # sched) (d, sts) =
     (if i < length calls \<and> i < length sts
      then (case advance chk org now (calls ! i) d (sts ! i) of
              (d', st') \<Rightarrow> run_schedule chk org now calls sched (d', sts[i := st']))
      else run_schedule chk org now calls sched (d, sts))"

text \<open>The rows of an organization and dimension in a period, both ends included.\<close>

definition in_period :: "string \<Rightarrow> string \<Rightarrow> int \<Rightarrow> int \<Rightarrow> usage_row \<Rightarrow> bool" where
  "in_period org dim startDate endDate r =
     (organization_id r = org \<and> dimension r = dim \<and>
      startDate \<le> timestamp r \<and> timestamp r \<le> endDate)"

subsection \<open>Example data\<close>

definition empty_db :: db where
  "empty_db = \<lparr>organizations = Map.empty, usage_records = [], next_id = 0, online = True\<rparr>"

definition row_k1 :: usage_row where
  "row_k1 = \<lparr>organization_id = ''org-1'', dimension = ''api_calls'', quantity = 5,
             timestamp = 2000, stripe_usage_record_id = Some ''key-1'', row_id = 0\<rparr>"

definition db_k1 :: db where
  "db_k1 = empty_db\<lparr>usage_records := [row_k1], next_id := 1\<rparr>"

definition row_blank :: usage_row where
  "row_blank = \<lparr>organization_id = ''org-1'', dimension = ''api_calls'', quantity = 5,
                timestamp = 2000, stripe_usage_record_id = Some [], row_id = 0\<rparr>"

definition db_blank :: db where
  "db_blank = empty_db\<lparr>usage_records := [row_blank], next_id := 1\<rparr>"

definition db_k1_twice :: db where
  "db_k1_twice = empty_db\<lparr>usage_records := [row_k1, row_k1\<lparr>row_id := 1\<rparr>], next_id := 2\<rparr>"

definition call_k1 :: call_args where
  "call_k1 = \<lparr>call_dimension = ''api_calls'', call_quantity = 5, call_timestamp = Some 2000,
              call_key = Some ''key-1''\<rparr>"

section \<open>The payment provider's objects and the configuration\<close>

text \<open>
  A subscription as the provider sends it: its id, its lifecycle status, its line items
  (each with the id of its price and an optional quantity) and its metadata. Metadata is
  a JSON object from strings to strings, read with \<open>map_of\<close>. Item ids are opaque
  identifiers that the provider assigns; they are modelled as numbers. The quantity of
  an item is a non-negative integer at the provider, hence a \<open>nat\<close>.
\<close>

record subscription_item =
  item_id :: nat
  price_id :: string
  item_quantity :: "nat option"

record subscription =
  subscription_id :: string
  status :: string
  items :: "subscription_item list"
  metadata :: "(string \<times> string) list"

record invoice =
  invoice_id :: string
  invoice_metadata :: "(string \<times> string) list option"

record checkout_session =
  session_id :: string
  session_metadata :: "(string \<times> string) list option"

text \<open>The event kinds the handler switches on, each with the object the event embeds.\<close>

datatype event =
  CustomerSubscriptionCreated subscription
| CustomerSubscriptionUpdated subscription
| CustomerSubscriptionDeleted subscription
| InvoiceFinalized invoice
| InvoicePaymentFailed invoice
| CheckoutSessionCompleted checkout_session
| OtherEvent string

text \<open>\<open>STRIPE_CONFIG\<close>: the price ids come from the environment.\<close>

record stripe_config =
  starter_priceId :: string
  pro_priceId :: string
  enterprise_priceId :: string
  perSeatPriceId :: string
  meteredUsagePriceId :: string

definition plans :: "stripe_config \<Rightarrow> (string \<times> string) list" where
  "plans cfg =
     [(''starter'', starter_priceId cfg), (''pro'', pro_priceId cfg),
      (''enterprise'', enterprise_priceId cfg)]"

section \<open>The webhook handler\<close>

text \<open>\<open>perSeatItem ? perSeatItem.quantity || 0 : 0\<close>\<close>

definition seatCount :: "stripe_config \<Rightarrow> subscription \<Rightarrow> int" where
  "seatCount cfg subscription =
     (case find (\<lambda>item. price_id item = perSeatPriceId cfg) (items subscription) of
        None \<Rightarrow> 0
      | Some perSeatItem \<Rightarrow>
          (case item_quantity perSeatItem of
             None \<Rightarrow> 0
           | Some q \<Rightarrow> if q = 0 then 0 else int q))"

text \<open>
  The base item is the first item whose price is neither the per-seat nor the metered
  price; the plan is the first key of \<open>plans\<close> whose price id is the base item's.
\<close>

definition subscriptionPlan :: "stripe_config \<Rightarrow> subscription \<Rightarrow> string option" where
  "subscriptionPlan cfg subscription =
     (case find (\<lambda>item. price_id item \<noteq> perSeatPriceId cfg \<and>
                          price_id item \<noteq> meteredUsagePriceId cfg) (items subscription) of
        None \<Rightarrow> None
      | Some baseItem \<Rightarrow>
          (case find (\<lambda>(key, priceId). priceId = price_id baseItem) (plans cfg) of
             None \<Rightarrow> None
           | Some (planKey, priceId) \<Rightarrow> if truthy (Some planKey) then Some planKey else None))"

definition handleSubscriptionUpdate ::
  "stripe_config \<Rightarrow> int \<Rightarrow> db \<Rightarrow> subscription \<Rightarrow> db" where
  "handleSubscriptionUpdate cfg now d subscription =
     (case map_of (metadata subscription) ''organization_id'' of
        None \<Rightarrow> d
      | Some organizationId \<Rightarrow>
          if \<not> truthy (Some organizationId) then d
          else update_organization d organizationId
                 (\<lambda>r. r\<lparr>stripe_subscription_id := Some (subscription_id subscription),
                         subscription_status := Some (status subscription),
                         subscription_plan := subscriptionPlan cfg subscription,
                         seat_count := seatCount cfg subscription,
                         updated_at := now\<rparr>))"

definition handleSubscriptionDeleted :: "int \<Rightarrow> db \<Rightarrow> subscription \<Rightarrow> db" where
  "handleSubscriptionDeleted now d subscription =
     (case map_of (metadata subscription) ''organization_id'' of
        None \<Rightarrow> d
      | Some organizationId \<Rightarrow>
          if \<not> truthy (Some organizationId) then d
          else update_organization d organizationId
                 (\<lambda>r. r\<lparr>stripe_subscription_id := None,
                         subscription_status := Some ''canceled'',
                         subscription_plan := None,
                         seat_count := 0,
                         updated_at := now\<rparr>))"

definition handleInvoiceFinalized :: "db \<Rightarrow> invoice \<Rightarrow> db" where
  "handleInvoiceFinalized d invoice = d"

text \<open>\<open>invoice.metadata?.organization_id\<close>\<close>

definition optional_organization_id :: "(string \<times> string) list option \<Rightarrow> string option" where
  "optional_organization_id md =
     (case md of None \<Rightarrow> None | Some m \<Rightarrow> map_of m ''organization_id'')"

definition handleInvoicePaymentFailed :: "int \<Rightarrow> db \<Rightarrow> invoice \<Rightarrow> db" where
  "handleInvoicePaymentFailed now d invoice =
     (case optional_organization_id (invoice_metadata invoice) of
        None \<Rightarrow> d
      | Some organizationId \<Rightarrow>
          if \<not> truthy (Some organizationId) then d
          else update_organization d organizationId
                 (\<lambda>r. r\<lparr>subscription_status := Some ''past_due'', updated_at := now\<rparr>))"

definition handleCheckoutCompleted :: "db \<Rightarrow> checkout_session \<Rightarrow> db" where
  "handleCheckoutCompleted d session = d"

text \<open>The \<open>switch\<close> on the event type.\<close>

fun dispatch :: "stripe_config \<Rightarrow> int \<Rightarrow> db \<Rightarrow> event \<Rightarrow> db" where
  "dispatch cfg now d (CustomerSubscriptionCreated subscription) =
     handleSubscriptionUpdate cfg now d subscription"
| "dispatch cfg now d (CustomerSubscriptionUpdated subscription) =
     handleSubscriptionUpdate cfg now d subscription"
| "dispatch cfg now d (CustomerSubscriptionDeleted subscription) =
     handleSubscriptionDeleted now d subscription"
| "dispatch cfg now d (InvoiceFinalized invoice) = handleInvoiceFinalized d invoice"
| "dispatch cfg now d (InvoicePaymentFailed invoice) = handleInvoicePaymentFailed now d invoice"
| "dispatch cfg now d (CheckoutSessionCompleted session) = handleCheckoutCompleted d session"
| "dispatch cfg now d (OtherEvent kind) = d"

text \<open>
  A response is a status code and a JSON body. The verification of the signature is the
  provider library's \<open>constructEvent\<close>, a parameter: from the raw body, the signature
  header and the signing secret to the event, or nothing when it throws. None of the
  handlers throws (the store's client returns its errors, and the handlers do not read
  them), so the \<open>catch\<close> around the switch, which answers 500, has no branch here.
\<close>

datatype json = ErrorJson string | ReceivedJson | SuccessJson | UsageRecordJson string

record response =
  http_status :: nat
  body :: json

type_synonym verifier = "string \<Rightarrow> string \<Rightarrow> string \<Rightarrow> event option"

definition POST_webhook ::
  "verifier \<Rightarrow> string \<Rightarrow> stripe_config \<Rightarrow> int \<Rightarrow> db \<Rightarrow> string \<Rightarrow> string option
     \<Rightarrow> db \<times> response" where
  "POST_webhook constructEvent secret cfg now d rawBody signature =
     (case signature of
        None \<Rightarrow> (d, \<lparr>http_status = 400, body = ErrorJson ''No signature provided''\<rparr>)
      | Some sig \<Rightarrow>
          if \<not> truthy (Some sig)
          then (d, \<lparr>http_status = 400, body = ErrorJson ''No signature provided''\<rparr>)
          else (case constructEvent rawBody sig secret of
                  None \<Rightarrow> (d, \<lparr>http_status = 400, body = ErrorJson ''Invalid signature''\<rparr>)
                | Some event \<Rightarrow>
                    (dispatch cfg now d event, \<lparr>http_status = 200, body = ReceivedJson\<rparr>)))"

section \<open>The payment provider and the billing commands\<close>

text \<open>
  The provider holds the subscriptions and assigns the ids of new items from a counter.
  Its calls either return or throw; a throw is \<open>Inl\<close>. It refuses a negative quantity.
\<close>

record provider_usage =
  usage_item_id :: nat
  usage_quantity :: int
  usage_timestamp :: "int option"

record stripe =
  subscriptions :: "subscription list"
  next_item_id :: nat
  usage_events :: "provider_usage list"

record item_param =
  param_id :: "nat option"
  param_price :: string
  param_quantity :: "int option"

definition stripe_subscriptions_retrieve :: "stripe \<Rightarrow> string \<Rightarrow> error + subscription" where
  "stripe_subscriptions_retrieve st sid =
     (case find (\<lambda>s. subscription_id s = sid) (subscriptions st) of
        None \<Rightarrow> Inl (Error ''No such subscription'')
      | Some s \<Rightarrow> Inr s)"

text \<open>\<open>subscriptionItems.update(id, {quantity})\<close>: the quantity of the item with that id.\<close>

definition stripe_subscriptionItems_update :: "stripe \<Rightarrow> nat \<Rightarrow> int \<Rightarrow> stripe \<times> (error + unit)" where
  "stripe_subscriptionItems_update st iid q =
     (if q < 0 then (st, Inl (Error ''Invalid non-negative integer''))
      else if \<not> list_ex (\<lambda>s. list_ex (\<lambda>it. item_id it = iid) (items s)) (subscriptions st)
      then (st, Inl (Error ''No such subscription item''))
      else (st\<lparr>subscriptions :=
                 map (\<lambda>s. s\<lparr>items :=
                        map (\<lambda>it. if item_id it = iid then it\<lparr>item_quantity := Some (nat q)\<rparr> else it)
                          (items s)\<rparr>)
                   (subscriptions st)\<rparr>,
            Inr ()))"

text \<open>
  \<open>subscriptions.update(id, {items})\<close>: an entry with an id changes the item with that id,
  an entry without an id adds a new item.
\<close>

definition apply_item_param ::
  "item_param \<Rightarrow> subscription_item list \<times> nat \<Rightarrow> subscription_item list \<times> nat" where
  "apply_item_param p acc =
     (case acc of (its, n) \<Rightarrow>
        (case param_id p of
           Some i \<Rightarrow>
             (map (\<lambda>it. if item_id it = i
                        then it\<lparr>price_id := param_price p,
                               item_quantity :=
                                 (case param_quantity p of
                                    None \<Rightarrow> item_quantity it
                                  | Some q \<Rightarrow> Some (nat q))\<rparr>
                        else it) its, n)
         | None \<Rightarrow>
             (its @ [\<lparr>item_id = n, price_id = param_price p,
                      item_quantity = map_option nat (param_quantity p)\<rparr>], Suc n)))"

definition negative_quantity :: "item_param \<Rightarrow> bool" where
  "negative_quantity p = (case param_quantity p of None \<Rightarrow> False | Some q \<Rightarrow> q < 0)"

definition stripe_subscriptions_update ::
  "stripe \<Rightarrow> string \<Rightarrow> item_param list \<Rightarrow> stripe \<times> (error + unit)" where
  "stripe_subscriptions_update st sid params =
     (case stripe_subscriptions_retrieve st sid of
        Inl e \<Rightarrow> (st, Inl e)
      | Inr s \<Rightarrow>
          if list_ex negative_quantity params
          then (st, Inl (Error ''Invalid non-negative integer''))
          else (case fold apply_item_param params (items s, next_item_id st) of
                  (its, n) \<Rightarrow>
                    (st\<lparr>subscriptions :=
                          map (\<lambda>s'. if subscription_id s' = sid then s'\<lparr>items := its\<rparr> else s')
                            (subscriptions st),
                        next_item_id := n\<rparr>,
                     Inr ())))"

definition updateSubscriptionSeats ::
  "stripe_config \<Rightarrow> stripe \<Rightarrow> string \<Rightarrow> int \<Rightarrow> stripe \<times> (error + unit)" where
  "updateSubscriptionSeats cfg st subscriptionId seatCount' =
     (case stripe_subscriptions_retrieve st subscriptionId of
        Inl e \<Rightarrow> (st, Inl e)
      | Inr subscription \<Rightarrow>
          (case find (\<lambda>item. price_id item = perSeatPriceId cfg) (items subscription) of
             Some perSeatItem \<Rightarrow> stripe_subscriptionItems_update st (item_id perSeatItem) seatCount'
           | None \<Rightarrow>
               stripe_subscriptions_update st subscriptionId
                 (map (\<lambda>item. \<lparr>param_id = Some (item_id item), param_price = price_id item,
                                param_quantity = map_option int (item_quantity item)\<rparr>)
                    (items subscription)
                  @ [\<lparr>param_id = None, param_price = perSeatPriceId cfg,
                      param_quantity = Some seatCount'\<rparr>])))"

text \<open>
  \<open>reportUsage\<close>: a usage record on the metered item of the subscription. The provider
  names the record it creates; \<open>mk\<close> is that naming. The timestamp is sent in seconds.
\<close>

definition reportUsage ::
  "(nat \<Rightarrow> string) \<Rightarrow> stripe_config \<Rightarrow> stripe \<Rightarrow> string \<Rightarrow> int \<Rightarrow> int option
     \<Rightarrow> stripe \<times> (error + string)" where
  "reportUsage mk cfg st subscriptionId qty ts =
     (case stripe_subscriptions_retrieve st subscriptionId of
        Inl e \<Rightarrow> (st, Inl e)
      | Inr subscription \<Rightarrow>
          (case find (\<lambda>item. price_id item = meteredUsagePriceId cfg) (items subscription) of
             None \<Rightarrow> (st, Inl (Error ''Metered usage price not found in subscription''))
           | Some meteredItem \<Rightarrow>
               (st\<lparr>usage_events := usage_events st @
                      [\<lparr>usage_item_id = item_id meteredItem, usage_quantity = qty,
                        usage_timestamp = map_option (\<lambda>t. t div 1000) ts\<rparr>]\<rparr>,
                Inr (mk (length (usage_events st))))))"

section \<open>The command routes\<close>

text \<open>
  The routes read a JSON request; a field that is absent is \<open>None\<close>. The authorization
  collaborator \<open>requireOrganizationAccess\<close> is a parameter: given the organization id and
  the role required, it yields the organization, or nothing when it redirects (inside the
  route's \<open>try\<close> the redirect is caught and answered with 500).
\<close>

type_synonym access = "string \<Rightarrow> string option \<Rightarrow> organization option"

record seats_request =
  seats_organizationId :: "string option"
  seats_seatCount :: "int option"

definition POST_update_seats ::
  "access \<Rightarrow> stripe_config \<Rightarrow> stripe \<Rightarrow> seats_request \<Rightarrow> stripe \<times> response" where
  "POST_update_seats requireOrganizationAccess cfg st req =
     (case (seats_organizationId req, seats_seatCount req) of
        (Some organizationId, Some seatCount') \<Rightarrow>
          if \<not> truthy (Some organizationId)
          then (st, \<lparr>http_status = 400, body = ErrorJson ''Missing required fields''\<rparr>)
          else if seatCount' < 0
          then (st, \<lparr>http_status = 400, body = ErrorJson ''Seat count must be non-negative''\<rparr>)
          else (case requireOrganizationAccess organizationId (Some ''admin'') of
                  None \<Rightarrow> (st, \<lparr>http_status = 500, body = ErrorJson ''Failed to update seats''\<rparr>)
                | Some organization \<Rightarrow>
                    (case stripe_subscription_id organization of
                       None \<Rightarrow>
                         (st, \<lparr>http_status = 400, body = ErrorJson ''No active subscription found''\<rparr>)
                     | Some subscriptionId \<Rightarrow>
                         if \<not> truthy (Some subscriptionId)
                         then (st, \<lparr>http_status = 400,
                                    body = ErrorJson ''No active subscription found''\<rparr>)
                         else (case updateSubscriptionSeats cfg st subscriptionId seatCount' of
                                 (st', Inl e) \<Rightarrow>
                                   (st', \<lparr>http_status = 500,
                                          body = ErrorJson ''Failed to update seats''\<rparr>)
                               | (st', Inr u) \<Rightarrow>
                                   (st', \<lparr>http_status = 200, body = SuccessJson\<rparr>))))
      | _ \<Rightarrow> (st, \<lparr>http_status = 400, body = ErrorJson ''Missing required fields''\<rparr>))"

text \<open>
  The timestamp of a usage request is tested for truthiness twice, once for the instant
  sent to the provider and once for the instant stored: an absent timestamp and the
  number 0 are both falsy.
\<close>

fun truthy_number :: "int option \<Rightarrow> bool" where
  "truthy_number None = False"
| "truthy_number (Some t) = (t \<noteq> 0)"

record usage_request =
  usage_organizationId :: "string option"
  usage_dimension :: "string option"
  usage_quantity' :: "int option"
  usage_timestamp' :: "int option"

definition POST_report_usage ::
  "access \<Rightarrow> (nat \<Rightarrow> string) \<Rightarrow> table_constraint \<Rightarrow> stripe_config \<Rightarrow> int \<Rightarrow> db \<times> stripe
     \<Rightarrow> usage_request \<Rightarrow> (db \<times> stripe) \<times> response" where
  "POST_report_usage requireOrganizationAccess mk chk cfg now state req =
     (case state of (d, st) \<Rightarrow>
     (case (usage_organizationId req, usage_dimension req, usage_quantity' req) of
        (Some organizationId, Some dim, Some qty) \<Rightarrow>
          if \<not> truthy (Some organizationId) \<or> \<not> truthy (Some dim)
          then ((d, st), \<lparr>http_status = 400, body = ErrorJson ''Missing required fields''\<rparr>)
          else if qty < 0
          then ((d, st), \<lparr>http_status = 400, body = ErrorJson ''Quantity must be non-negative''\<rparr>)
          else (case requireOrganizationAccess organizationId None of
                  None \<Rightarrow>
                    ((d, st), \<lparr>http_status = 500, body = ErrorJson ''Failed to report usage''\<rparr>)
                | Some organization \<Rightarrow>
                    (case stripe_subscription_id organization of
                       None \<Rightarrow>
                         ((d, st), \<lparr>http_status = 400,
                                    body = ErrorJson ''No active subscription found''\<rparr>)
                     | Some subscriptionId \<Rightarrow>
                         if \<not> truthy (Some subscriptionId)
                         then ((d, st), \<lparr>http_status = 400,
                                         body = ErrorJson ''No active subscription found''\<rparr>)
                         else (case reportUsage mk cfg st subscriptionId qty
                                      (if truthy_number (usage_timestamp' req)
                                       then usage_timestamp' req else None) of
                                 (st', Inl e) \<Rightarrow>
                                   ((d, st'), \<lparr>http_status = 500,
                                               body = ErrorJson ''Failed to report usage''\<rparr>)
                               | (st', Inr usageRecordId) \<Rightarrow>
                                   ((fst (insert_usage chk d
                                       \<lparr>organization_id = organizationId, dimension = dim,
                                        quantity = qty,
                                        timestamp =
                                          (case usage_timestamp' req of
                                             None \<Rightarrow> now
                                           | Some t \<Rightarrow> if truthy_number (Some t) then t else now),
                                        stripe_usage_record_id = Some usageRecordId\<rparr>), st'),
                                    \<lparr>http_status = 200, body = UsageRecordJson usageRecordId\<rparr>))))
      | _ \<Rightarrow> ((d, st), \<lparr>http_status = 400, body = ErrorJson ''Missing required fields''\<rparr>)))"

section \<open>Notions used in the statements\<close>

text \<open>The per-seat items of a subscription are those at the configured per-seat price.\<close>

definition per_seat :: "stripe_config \<Rightarrow> subscription_item \<Rightarrow> bool" where
  "per_seat cfg it = (price_id it = perSeatPriceId cfg)"

text \<open>The store with the time of the last write of every organization left out.\<close>

definition without_time :: "db \<Rightarrow> db" where
  "without_time d = d\<lparr>organizations := map_option (\<lambda>r. r\<lparr>updated_at := 0\<rparr>) \<circ> organizations d\<rparr>"

subsection \<open>Example objects\<close>

definition cfg_example :: stripe_config where
  "cfg_example =
     \<lparr>starter_priceId = ''price_starter'', pro_priceId = ''price_pro'',
      enterprise_priceId = ''price_enterprise'', perSeatPriceId = ''price_seat'',
      meteredUsagePriceId = ''price_metered''\<rparr>"

definition org_example :: organization where
  "org_example =
     \<lparr>stripe_customer_id = Some ''cus_1'', stripe_subscription_id = Some ''sub_1'',
      subscription_status = Some ''active'', subscription_plan = Some ''starter'',
      seat_count = 2, updated_at = 100\<rparr>"

definition db_org :: db where
  "db_org = empty_db\<lparr>organizations := [''org-1'' \<mapsto> org_example]\<rparr>"

definition sub_example :: subscription where
  "sub_example =
     \<lparr>subscription_id = ''sub_1'', status = ''trialing'',
      items = [\<lparr>item_id = 0, price_id = ''price_metered'', item_quantity = None\<rparr>,
               \<lparr>item_id = 1, price_id = ''price_pro'', item_quantity = Some 1\<rparr>,
               \<lparr>item_id = 2, price_id = ''price_seat'', item_quantity = Some 7\<rparr>],
      metadata = [(''organization_id'', ''org-1'')]\<rparr>"

definition addon_subscription :: subscription where
  "addon_subscription =
     \<lparr>subscription_id = ''sub_1'', status = ''active'',
      items = [\<lparr>item_id = 0, price_id = ''price_addon'', item_quantity = Some 1\<rparr>,
               \<lparr>item_id = 1, price_id = ''price_pro'', item_quantity = Some 1\<rparr>],
      metadata = [(''organization_id'', ''org-1'')]\<rparr>"

definition invoice_example :: invoice where
  "invoice_example =
     \<lparr>invoice_id = ''in_1'', invoice_metadata = Some [(''organization_id'', ''org-1'')]\<rparr>"

definition example_constructEvent :: verifier where
  "example_constructEvent rawBody sig secret =
     (if sig \<noteq> secret @ rawBody then None
      else if rawBody = ''updated'' then Some (CustomerSubscriptionUpdated sub_example)
      else if rawBody = ''payment_failed'' then Some (InvoicePaymentFailed invoice_example)
      else Some (OtherEvent rawBody))"

definition base_subscription :: subscription where
  "base_subscription =
     \<lparr>subscription_id = ''sub_1'', status = ''active'',
      items = [\<lparr>item_id = 0, price_id = ''price_metered'', item_quantity = None\<rparr>,
               \<lparr>item_id = 1, price_id = ''price_pro'', item_quantity = Some 1\<rparr>],
      metadata = [(''organization_id'', ''org-1'')]\<rparr>"

definition stripe_example :: stripe where
  "stripe_example = \<lparr>subscriptions = [base_subscription], next_item_id = 2, usage_events = []\<rparr>"

definition access_example :: access where
  "access_example organizationId role =
     (if organizationId = ''org-1'' then Some org_example else None)"

section \<open>Properties of the usage tracker\<close>

lemma trackUsage_duplicate:
  assumes "k \<noteq> []" and "online d"
    and "filter (same_key org dim k) (usage_records d) = [r]"
  shows "trackUsage chk org now d dim qty ts (Some k) =
           (d, Inr \<lparr>result_id = row_id r, alreadyRecorded = True\<rparr>)"
  using assms by (simp add: trackUsage_def trackUsage_lookup_def trackUsage_write_def)

lemma trackUsage_repeat_duplicate:
  assumes "k \<noteq> []" and "online d"
    and "filter (same_key org dim k) (usage_records d) = [r]"
  shows "trackUsage_repeat chk org dim qty ts (Some k) nows d =
           (d, replicate (length nows) (Inr \<lparr>result_id = row_id r, alreadyRecorded = True\<rparr>))"
  using assms by (induction nows) (simp_all add: trackUsage_duplicate)

lemma trackUsage_first_call:
  assumes "k \<noteq> []" and "online d"
    and "filter (same_key org dim k) (usage_records d) = []"
    and "chk (usage_records d)
           \<lparr>organization_id = org, dimension = dim, quantity = qty,
            timestamp = (case ts of None \<Rightarrow> now | Some t \<Rightarrow> t),
            stripe_usage_record_id = Some k\<rparr> = None"
  shows "trackUsage chk org now d dim qty ts (Some k) =
           (d\<lparr>usage_records := usage_records d @
                [\<lparr>organization_id = org, dimension = dim, quantity = qty,
                  timestamp = (case ts of None \<Rightarrow> now | Some t \<Rightarrow> t),
                  stripe_usage_record_id = Some k, row_id = next_id d\<rparr>],
              next_id := Suc (next_id d)\<rparr>,
            Inr \<lparr>result_id = next_id d, alreadyRecorded = False\<rparr>)"
  using assms
  by (simp add: trackUsage_def trackUsage_lookup_def trackUsage_write_def insert_usage_def
      with_id_def)

lemma trackUsage_first_then_retries:
  assumes "k \<noteq> []" and "online d"
    and "filter (same_key org dim k) (usage_records d) = []"
    and "chk (usage_records d)
           \<lparr>organization_id = org, dimension = dim, quantity = qty,
            timestamp = (case ts of None \<Rightarrow> now | Some t \<Rightarrow> t),
            stripe_usage_record_id = Some k\<rparr> = None"
  shows "trackUsage_repeat chk org dim qty ts (Some k) (now # nows) d =
           (d\<lparr>usage_records := usage_records d @
                [\<lparr>organization_id = org, dimension = dim, quantity = qty,
                  timestamp = (case ts of None \<Rightarrow> now | Some t \<Rightarrow> t),
                  stripe_usage_record_id = Some k, row_id = next_id d\<rparr>],
              next_id := Suc (next_id d)\<rparr>,
            Inr \<lparr>result_id = next_id d, alreadyRecorded = False\<rparr> #
            replicate (length nows) (Inr \<lparr>result_id = next_id d, alreadyRecorded = True\<rparr>))"
proof -
  let ?r = "\<lparr>organization_id = org, dimension = dim, quantity = qty,
                  timestamp = (case ts of None \<Rightarrow> now | Some t \<Rightarrow> t),
                  stripe_usage_record_id = Some k, row_id = next_id d\<rparr>"
  let ?d = "d\<lparr>usage_records := usage_records d @ [?r], next_id := Suc (next_id d)\<rparr>"
  have one: "filter (same_key org dim k) (usage_records ?d) = [?r]"
    using assms(3) by (simp add: same_key_def)
  have on: "online ?d" using assms(2) by simp
  have "trackUsage_repeat chk org dim qty ts (Some k) nows ?d =
          (?d, replicate (length nows) (Inr \<lparr>result_id = row_id ?r, alreadyRecorded = True\<rparr>))"
    by (rule trackUsage_repeat_duplicate [OF assms(1) on one])
  then show ?thesis
    using trackUsage_first_call [where chk = chk, OF assms] by simp
qed

text \<open>
  C1, as amended. For every organization, dimension, quantity and idempotency key that
  is not the empty string, on a store that answers: if exactly one usage record with the
  triple (organization, dimension, key) exists, any number of sequential calls of
  \<open>trackUsage\<close> with that key each return that record's id with \<open>alreadyRecorded = true\<close>
  and leave the store as it was, so the triple still has exactly one record and
  \<open>getUsageSummary\<close> reports what it reported before.
\<close>

theorem trackUsage_retry_idempotent:
  assumes "k \<noteq> []" and "online d"
    and "filter (same_key org dim k) (usage_records d) = [r]"
  shows "trackUsage_repeat chk org dim qty ts (Some k) nows d =
           (d, replicate (length nows) (Inr \<lparr>result_id = row_id r, alreadyRecorded = True\<rparr>))
       \<and> length (filter (same_key org dim k)
            (usage_records (fst (trackUsage_repeat chk org dim qty ts (Some k) nows d)))) = 1
       \<and> getUsageSummary org (fst (trackUsage_repeat chk org dim qty ts (Some k) nows d)) dim s e =
           getUsageSummary org d dim s e"
  using assms by (simp add: trackUsage_repeat_duplicate)

theorem trackUsage_retry_idempotent_witness:
  "''key-1'' \<noteq> [] \<and> online db_k1
   \<and> filter (same_key ''org-1'' ''api_calls'' ''key-1'') (usage_records db_k1) = [row_k1]
   \<and> trackUsage_repeat no_constraint ''org-1'' ''api_calls'' 5 (Some 2000) (Some ''key-1'')
         [2001, 2002, 2003] db_k1 =
       (db_k1, replicate (length [2001, 2002, 2003 :: int])
                 (Inr \<lparr>result_id = row_id row_k1, alreadyRecorded = True\<rparr>))"
proof -
  have h1: "''key-1'' \<noteq> []" by simp
  have h2: "online db_k1" by (simp add: db_k1_def empty_db_def)
  have h3: "filter (same_key ''org-1'' ''api_calls'' ''key-1'') (usage_records db_k1) = [row_k1]"
    by (simp add: db_k1_def empty_db_def row_k1_def same_key_def)
  show ?thesis
    using h1 h2 h3 trackUsage_retry_idempotent [OF h1 h2 h3] by blast
qed

text \<open>
  C1 as stated fails at two inputs. With the empty string as key the look-up is skipped,
  and with two records of the triple \<open>.single()\<close> yields no data; each time a further
  record is inserted and \<open>alreadyRecorded\<close> is false.
\<close>

theorem trackUsage_retry_counterexample:
  "trackUsage no_constraint ''org-1'' 3000 db_blank ''api_calls'' 5 (Some 2000) (Some []) =
     (db_blank\<lparr>usage_records := [row_blank, row_blank\<lparr>row_id := 1\<rparr>], next_id := 2\<rparr>,
      Inr \<lparr>result_id = 1, alreadyRecorded = False\<rparr>)
   \<and> trackUsage no_constraint ''org-1'' 3000 db_k1_twice ''api_calls'' 5 (Some 2000) (Some ''key-1'') =
     (db_k1_twice\<lparr>usage_records := [row_k1, row_k1\<lparr>row_id := 1\<rparr>, row_k1\<lparr>row_id := 2\<rparr>], next_id := 3\<rparr>,
      Inr \<lparr>result_id = 2, alreadyRecorded = False\<rparr>)"
  by (simp add: trackUsage_def trackUsage_lookup_def trackUsage_write_def insert_usage_def
      no_constraint_def with_id_def db_blank_def db_k1_twice_def empty_db_def row_blank_def
      row_k1_def same_key_def)

subsection \<open>The summary\<close>

lemma foldl_plus_quantity:
  "foldl (\<lambda>sum record. sum + sample_quantity record) a xs = a + sum_list (map sample_quantity xs)"
  by (induction xs arbitrary: a) simp_all

lemma sum_list_sort_key:
  fixes f :: "'a \<Rightarrow> int"
  shows "sum_list (map f (sort_key k xs)) = sum_list (map f xs)"
proof -
  have "sum_mset (mset (map f (sort_key k xs))) = sum_mset (mset (map f xs))" by simp
  then show ?thesis by (simp only: sum_mset_sum_list)
qed

lemma select_usage_online:
  "online d \<Longrightarrow> select_usage d org dim s e =
     Inr (map sample (sort_key timestamp (filter (in_period org dim s e) (usage_records d))))"
  by (simp add: select_usage_def in_period_def [abs_def])

lemma summary_total:
  assumes "online d"
  shows "getUsageSummary org d dim s e =
     Inr \<lparr>totalUsage = sum_list (map quantity (filter (in_period org dim s e) (usage_records d))),
          recordCount = length (filter (in_period org dim s e) (usage_records d)),
          records = map sample (sort_key timestamp (filter (in_period org dim s e) (usage_records d))),
          period_start = s, period_end = e\<rparr>"
proof -
  have "sum_list (map sample_quantity (map sample (sort_key timestamp xs))) = sum_list (map quantity xs)" for xs
    using sum_list_sort_key [of quantity timestamp xs] by (simp add: sample_def comp_def)
  then show ?thesis
    using assms by (simp add: getUsageSummary_def select_usage_online foldl_plus_quantity)
qed

lemma summary_offline:
  "\<not> online d \<Longrightarrow> getUsageSummary org d dim s e =
     Inl (Error (''Failed to get usage summary: '' @ store_unavailable))"
  by (simp add: getUsageSummary_def select_usage_def)

lemma summary_counts_new_record_once:
  assumes "online d" and "in_period org dim s e r"
  shows "\<exists>sm sm'. getUsageSummary org d dim s e = Inr sm
      \<and> getUsageSummary org (d\<lparr>usage_records := usage_records d @ [r], next_id := n\<rparr>) dim s e =
          Inr sm'
      \<and> totalUsage sm' = totalUsage sm + quantity r
      \<and> recordCount sm' = Suc (recordCount sm)"
proof -
  have "online (d\<lparr>usage_records := usage_records d @ [r], next_id := n\<rparr>)"
    using assms(1) by simp
  from summary_total [OF this, of org dim s e] summary_total [OF assms(1), of org dim s e]
  show ?thesis using assms(2) by simp
qed

text \<open>
  C7, as amended. For every organization, dimension and pair of instants, on a store that
  answers, \<open>getUsageSummary\<close> returns the sum and the count of \<open>quantity\<close> over exactly
  the records whose timestamp lies in the closed interval from start to end (a record
  whose timestamp equals the end is included), and returns those records ordered by
  timestamp ascending.
\<close>

theorem getUsageSummary_closed_interval:
  assumes "online d"
  shows "\<exists>sm. getUsageSummary org d dim s e = Inr sm
      \<and> totalUsage sm = sum_list (map quantity (filter (in_period org dim s e) (usage_records d)))
      \<and> recordCount sm = length (filter (in_period org dim s e) (usage_records d))
      \<and> mset (records sm) = mset (map sample (filter (in_period org dim s e) (usage_records d)))
      \<and> sorted (map sample_timestamp (records sm))"
proof -
  have "sorted (map sample_timestamp (map sample (sort_key timestamp xs)))" for xs :: "usage_row list"
    using sorted_sort_key [of timestamp xs] by (simp add: sample_def comp_def)
  then show ?thesis
    using summary_total [OF assms, of org dim s e] by simp
qed

theorem getUsageSummary_closed_interval_witness:
  "online db_k1 \<and>
   (\<exists>sm. getUsageSummary ''org-1'' db_k1 ''api_calls'' 1000 3000 = Inr sm
      \<and> totalUsage sm = 5 \<and> recordCount sm = 1
      \<and> sorted (map sample_timestamp (records sm)))"
proof -
  have h: "online db_k1" by (simp add: db_k1_def empty_db_def)
  have f: "filter (in_period ''org-1'' ''api_calls'' 1000 3000) (usage_records db_k1) = [row_k1]"
    by (simp add: db_k1_def empty_db_def row_k1_def in_period_def)
  have q: "quantity row_k1 = 5" by (simp add: row_k1_def)
  show ?thesis
    using h getUsageSummary_closed_interval [OF h, of "''org-1''" "''api_calls''" 1000 3000]
    by (auto simp add: f q)
qed

text \<open>
  C7 as stated fails: a record whose timestamp equals the end of the period is summed
  and counted.
\<close>

theorem getUsageSummary_half_open_counterexample:
  "getUsageSummary ''org-1'' db_k1 ''api_calls'' 1000 2000 =
     Inr \<lparr>totalUsage = 5, recordCount = 1,
          records = [\<lparr>sample_quantity = 5, sample_timestamp = 2000\<rparr>],
          period_start = 1000, period_end = 2000\<rparr>"
  by (simp add: getUsageSummary_def select_usage_def sample_def db_k1_def empty_db_def row_k1_def)

subsection \<open>Negative quantities, batches and concurrent calls\<close>

text \<open>
  C8. \<open>trackUsage\<close> has no check of the quantity: on a table that accepts the row, a call
  with quantity \<open>-5\<close> writes a usage record of quantity \<open>-5\<close> and returns its id.
\<close>

theorem trackUsage_negative_quantity_recorded:
  "trackUsage no_constraint ''org-1'' 3000 empty_db ''api_calls'' (- 5) (Some 2000) None =
     (empty_db\<lparr>usage_records :=
         [\<lparr>organization_id = ''org-1'', dimension = ''api_calls'', quantity = - 5,
           timestamp = 2000, stripe_usage_record_id = None, row_id = 0\<rparr>],
         next_id := 1\<rparr>,
      Inr \<lparr>result_id = 0, alreadyRecorded = False\<rparr>)"
  by (simp add: trackUsage_def trackUsage_lookup_def trackUsage_write_def insert_usage_def
      no_constraint_def with_id_def empty_db_def)

lemma insert_rows_appends:
  "insert_rows chk rows n vs = Inr (rows', n', new) \<Longrightarrow>
     rows' = rows @ new \<and> length new = length vs \<and> n' = n + length vs"
proof (induction vs arbitrary: rows n rows' n' new)
  case Nil
  then show ?case by simp
next
  case (Cons v vs)
  then show ?case
    by (fastforce split: option.splits sum.splits)
qed

lemma batchTrackUsage_all_or_nothing:
  "batchTrackUsage chk org now d recs = (d', Inl e) \<Longrightarrow> d' = d"
  "batchTrackUsage chk org now d recs = (d', Inr data) \<Longrightarrow>
     usage_records d' = usage_records d @ data \<and> length data = length recs"
  by (auto simp add: batchTrackUsage_def insert_many_def
      split: if_splits sum.splits prod.splits dest: insert_rows_appends)

text \<open>
  C9. \<open>batchTrackUsage\<close> makes no look-up of the idempotency keys: an item whose
  (organization, dimension, key) is already recorded is written a second time, and the
  result is the list of the rows inserted.
\<close>

theorem batchTrackUsage_duplicates_key:
  "batchTrackUsage no_constraint ''org-1'' 3000 db_k1
       [\<lparr>batch_dimension = ''api_calls'', batch_quantity = 5, batch_timestamp = Some 2000,
         batch_idempotencyKey = Some ''key-1''\<rparr>] =
     (db_k1\<lparr>usage_records := [row_k1, row_k1\<lparr>row_id := 1\<rparr>], next_id := 2\<rparr>,
      Inr [row_k1\<lparr>row_id := 1\<rparr>])"
  by (simp add: batchTrackUsage_def insert_many_def no_constraint_def with_id_def db_k1_def
      empty_db_def row_k1_def)

lemma advance_twice_is_trackUsage:
  "(case advance chk org now a d Started of (d', st) \<Rightarrow> advance chk org now a d' st) =
     (case trackUsage chk org now d (call_dimension a) (call_quantity a) (call_timestamp a) (call_key a)
        of (d', r) \<Rightarrow> (d', Finished r))"
  by (simp add: trackUsage_def)

lemma sequential_trackUsage_one_insert:
  "run_schedule no_constraint ''org-1'' 3000 [call_k1, call_k1] [0, 0, 1, 1]
       (empty_db, [Started, Started]) =
     (db_k1,
      [Finished (Inr \<lparr>result_id = 0, alreadyRecorded = False\<rparr>),
       Finished (Inr \<lparr>result_id = 0, alreadyRecorded = True\<rparr>)])"
  by (simp add: trackUsage_lookup_def trackUsage_write_def insert_usage_def
      no_constraint_def with_id_def db_k1_def empty_db_def row_k1_def call_k1_def same_key_def)

text \<open>
  C10. Two calls with the same key whose look-ups both run before either insert: both
  find no record, both insert, and the store holds two records of the triple.
\<close>

theorem concurrent_trackUsage_both_insert:
  "run_schedule no_constraint ''org-1'' 3000 [call_k1, call_k1] [0, 1, 0, 1]
       (empty_db, [Started, Started]) =
     (db_k1_twice,
      [Finished (Inr \<lparr>result_id = 0, alreadyRecorded = False\<rparr>),
       Finished (Inr \<lparr>result_id = 1, alreadyRecorded = False\<rparr>)])"
  by (simp add: trackUsage_lookup_def trackUsage_write_def insert_usage_def
      no_constraint_def with_id_def db_k1_twice_def empty_db_def row_k1_def call_k1_def same_key_def)

section \<open>Properties of the webhook handler\<close>

lemma find_filter_first:
  "find P xs = (case filter P xs of [] \<Rightarrow> None | x # _ \<Rightarrow> Some x)"
  by (induction xs) simp_all

lemma seatCount_first:
  "seatCount cfg sub =
     (case filter (\<lambda>it. price_id it = perSeatPriceId cfg) (items sub) of
        [] \<Rightarrow> 0
      | it # _ \<Rightarrow> (case item_quantity it of None \<Rightarrow> 0 | Some q \<Rightarrow> int q))"
  by (simp add: seatCount_def find_filter_first split: list.splits option.splits)

lemma plan_key_found:
  "find (\<lambda>(key, priceId). priceId = p) kps = Some (k, q) \<Longrightarrow> (k, p) \<in> set kps"
  by (induction kps) (auto split: if_splits)

lemma plan_key_missing:
  "find (\<lambda>(key, priceId). priceId = p) kps = None \<Longrightarrow> p \<notin> snd ` set kps"
  by (induction kps) (auto split: if_splits)

lemma subscriptionPlan_first:
  "(case filter (\<lambda>it. price_id it \<noteq> perSeatPriceId cfg \<and> price_id it \<noteq> meteredUsagePriceId cfg)
           (items sub) of
      [] \<Rightarrow> subscriptionPlan cfg sub = None
    | b # _ \<Rightarrow>
        (case subscriptionPlan cfg sub of
           None \<Rightarrow> price_id b \<notin> snd ` set (plans cfg)
         | Some key \<Rightarrow> (key, price_id b) \<in> set (plans cfg)))"
proof (cases "filter (\<lambda>it. price_id it \<noteq> perSeatPriceId cfg \<and> price_id it \<noteq> meteredUsagePriceId cfg) (items sub)")
  case Nil
  then show ?thesis by (simp add: subscriptionPlan_def find_filter_first)
next
  case (Cons b bs)
  show ?thesis
  proof (cases "find (\<lambda>(key, priceId). priceId = price_id b) (plans cfg)")
    case None
    then show ?thesis
      using Cons plan_key_missing [OF None]
      by (simp add: subscriptionPlan_def find_filter_first)
  next
    case (Some kp)
    obtain k q where kp: "kp = (k, q)" by (cases kp)
    have "k \<noteq> []" using Some kp by (auto simp add: plans_def split: if_splits)
    then show ?thesis
      using Cons Some kp plan_key_found [of "price_id b" "plans cfg" k q]
      by (simp add: subscriptionPlan_def find_filter_first)
  qed
qed

lemma handleSubscriptionUpdate_written:
  assumes "map_of (metadata sub) ''organization_id'' = Some oid" and "oid \<noteq> []"
    and "online d" and "organizations d oid = Some r"
  shows "handleSubscriptionUpdate cfg now d sub =
     d\<lparr>organizations := (organizations d)(oid \<mapsto>
         r\<lparr>stripe_subscription_id := Some (subscription_id sub),
           subscription_status := Some (status sub),
           subscription_plan := subscriptionPlan cfg sub,
           seat_count := seatCount cfg sub,
           updated_at := now\<rparr>)\<rparr>"
  using assms by (simp add: handleSubscriptionUpdate_def update_organization_def)

text \<open>
  C2, as amended. For every subscription created or updated event whose metadata carries
  an organization id, the row of that organization afterwards has: the status of the
  provider's subscription unchanged; as seat count the quantity of the first item at the
  per-seat price, or 0 if there is no such item or it has no quantity; as plan a key of
  \<open>plans\<close> whose price id is that of the first item, in the subscription's order, that
  is at neither the per-seat nor the metered price, or null if there is no such item or
  no plan has the price of that first item. Later items are not consulted.
\<close>

theorem subscription_event_snapshot:
  assumes "ev = CustomerSubscriptionCreated sub \<or> ev = CustomerSubscriptionUpdated sub"
    and "map_of (metadata sub) ''organization_id'' = Some oid" and "oid \<noteq> []"
    and "online d" and "organizations d oid = Some r"
  shows "\<exists>r'. organizations (dispatch cfg now d ev) oid = Some r'
      \<and> subscription_status r' = Some (status sub)
      \<and> seat_count r' =
          (case filter (\<lambda>it. price_id it = perSeatPriceId cfg) (items sub) of
             [] \<Rightarrow> 0
           | it # _ \<Rightarrow> (case item_quantity it of None \<Rightarrow> 0 | Some q \<Rightarrow> int q))
      \<and> (case filter (\<lambda>it. price_id it \<noteq> perSeatPriceId cfg \<and>
                           price_id it \<noteq> meteredUsagePriceId cfg) (items sub) of
            [] \<Rightarrow> subscription_plan r' = None
          | b # _ \<Rightarrow>
              (case subscription_plan r' of
                 None \<Rightarrow> price_id b \<notin> snd ` set (plans cfg)
               | Some key \<Rightarrow> (key, price_id b) \<in> set (plans cfg)))"
proof -
  define r' where "r' = r\<lparr>stripe_subscription_id := Some (subscription_id sub),
           subscription_status := Some (status sub),
           subscription_plan := subscriptionPlan cfg sub,
           seat_count := seatCount cfg sub,
           updated_at := now\<rparr>"
  have "dispatch cfg now d ev = handleSubscriptionUpdate cfg now d sub"
    using assms(1) by auto
  then have written: "organizations (dispatch cfg now d ev) oid = Some r'"
    using handleSubscriptionUpdate_written [OF assms(2-5), of cfg now] by (simp add: r'_def)
  have st: "subscription_status r' = Some (status sub)" by (simp add: r'_def)
  have seats: "seat_count r' = seatCount cfg sub" by (simp add: r'_def)
  have plan: "subscription_plan r' = subscriptionPlan cfg sub" by (simp add: r'_def)
  show ?thesis
    using written st seatCount_first [of cfg sub] subscriptionPlan_first [of cfg sub]
    unfolding seats [symmetric] plan [symmetric] by blast
qed

theorem subscription_event_snapshot_witness:
  "map_of (metadata sub_example) ''organization_id'' = Some ''org-1'' \<and> ''org-1'' \<noteq> []
   \<and> online db_org \<and> organizations db_org ''org-1'' = Some org_example
   \<and> (\<exists>r'. organizations
               (dispatch cfg_example 500 db_org (CustomerSubscriptionUpdated sub_example))
               ''org-1'' = Some r'
          \<and> subscription_status r' = Some ''trialing''
          \<and> seat_count r' = 7
          \<and> subscription_plan r' = Some ''pro'')"
proof -
  have h1: "CustomerSubscriptionUpdated sub_example = CustomerSubscriptionCreated sub_example
          \<or> CustomerSubscriptionUpdated sub_example = CustomerSubscriptionUpdated sub_example"
    by simp
  have h2: "map_of (metadata sub_example) ''organization_id'' = Some ''org-1''"
    by (simp add: sub_example_def)
  have h3: "''org-1'' \<noteq> []" by simp
  have h4: "online db_org" by (simp add: db_org_def empty_db_def)
  have h5: "organizations db_org ''org-1'' = Some org_example" by (simp add: db_org_def)
  have f1: "filter (\<lambda>it. price_id it = perSeatPriceId cfg_example) (items sub_example) =
              [\<lparr>item_id = 2, price_id = ''price_seat'', item_quantity = Some 7\<rparr>]"
    by (simp add: sub_example_def cfg_example_def)
  have f2: "filter (\<lambda>it. price_id it \<noteq> perSeatPriceId cfg_example \<and>
                          price_id it \<noteq> meteredUsagePriceId cfg_example) (items sub_example) =
              [\<lparr>item_id = 1, price_id = ''price_pro'', item_quantity = Some 1\<rparr>]"
    by (simp add: sub_example_def cfg_example_def)
  have p: "plans cfg_example =
             [(''starter'', ''price_starter''), (''pro'', ''price_pro''),
              (''enterprise'', ''price_enterprise'')]"
    by (simp add: plans_def cfg_example_def)
  have st: "status sub_example = ''trialing''" by (simp add: sub_example_def)
  obtain r' where A: "organizations
               (dispatch cfg_example 500 db_org (CustomerSubscriptionUpdated sub_example))
               ''org-1'' = Some r'"
    and B: "subscription_status r' = Some (status sub_example)"
    and C: "seat_count r' =
          (case filter (\<lambda>it. price_id it = perSeatPriceId cfg_example) (items sub_example) of
             [] \<Rightarrow> 0
           | it # _ \<Rightarrow> (case item_quantity it of None \<Rightarrow> 0 | Some q \<Rightarrow> int q))"
    and D: "(case filter (\<lambda>it. price_id it \<noteq> perSeatPriceId cfg_example \<and>
                           price_id it \<noteq> meteredUsagePriceId cfg_example) (items sub_example) of
            [] \<Rightarrow> subscription_plan r' = None
          | b # _ \<Rightarrow>
              (case subscription_plan r' of
                 None \<Rightarrow> price_id b \<notin> snd ` set (plans cfg_example)
               | Some key \<Rightarrow> (key, price_id b) \<in> set (plans cfg_example)))"
    using subscription_event_snapshot [OF h1 h2 h3 h4 h5, of cfg_example 500] by blast
  have B': "subscription_status r' = Some ''trialing''" using B by (simp add: st)
  have C': "seat_count r' = 7" using C by (simp add: f1)
  have "subscription_plan r' = Some ''pro''"
    using D by (cases "subscription_plan r'") (simp_all add: f2 p)
  then show ?thesis using h2 h3 h4 h5 A B' C' by blast
qed

text \<open>
  C2 as stated fails where an item of no known plan comes before the plan's item: the
  second item is at neither the per-seat nor the metered price and its price is that of
  the plan \<open>pro\<close>, and the plan written is null.
\<close>

theorem subscription_plan_first_item_counterexample:
  "organizations
     (dispatch cfg_example 500 db_org (CustomerSubscriptionUpdated addon_subscription))
     ''org-1'' =
     Some \<lparr>stripe_customer_id = Some ''cus_1'', stripe_subscription_id = Some ''sub_1'',
           subscription_status = Some ''active'', subscription_plan = None,
           seat_count = 0, updated_at = 500\<rparr>
   \<and> items addon_subscription =
       [\<lparr>item_id = 0, price_id = ''price_addon'', item_quantity = Some 1\<rparr>,
        \<lparr>item_id = 1, price_id = ''price_pro'', item_quantity = Some 1\<rparr>]
   \<and> ''price_pro'' \<noteq> perSeatPriceId cfg_example
   \<and> ''price_pro'' \<noteq> meteredUsagePriceId cfg_example
   \<and> (''pro'', ''price_pro'') \<in> set (plans cfg_example)"
  by (simp add: handleSubscriptionUpdate_def update_organization_def subscriptionPlan_def
      seatCount_def plans_def addon_subscription_def cfg_example_def db_org_def empty_db_def
      org_example_def)

lemma subscription_event_without_organization:
  assumes "\<not> truthy (map_of (metadata sub) ''organization_id'')"
  shows "handleSubscriptionUpdate cfg now d sub = d"
    and "handleSubscriptionDeleted now d sub = d"
  using assms
  by (auto simp add: handleSubscriptionUpdate_def handleSubscriptionDeleted_def split: option.splits)

lemma POST_webhook_verified:
  assumes "constructEvent rawBody sig secret = Some ev" and "sig \<noteq> []"
  shows "POST_webhook constructEvent secret cfg now d rawBody (Some sig) =
           (dispatch cfg now d ev, \<lparr>http_status = 200, body = ReceivedJson\<rparr>)"
  using assms by (simp add: POST_webhook_def)

text \<open>
  C3. For every raw payload and signature header: if the header is missing or empty, or
  the verification against the signing secret fails, the handler answers 400 and the
  store is unchanged, whatever event the payload describes: no event is constructed, so
  the switch on the event type is not reached.
\<close>

theorem unverified_payload_rejected:
  assumes "signature = None \<or> signature = Some []
         \<or> (\<exists>sig. signature = Some sig \<and> constructEvent rawBody sig secret = None)"
  shows "fst (POST_webhook constructEvent secret cfg now d rawBody signature) = d
       \<and> http_status (snd (POST_webhook constructEvent secret cfg now d rawBody signature)) = 400"
  using assms by (auto simp add: POST_webhook_def)

theorem unverified_payload_rejected_witness:
  "example_constructEvent ''payment_failed'' ''forged'' ''whsec'' = None
   \<and> fst (POST_webhook example_constructEvent ''whsec'' cfg_example 500 db_org
            ''payment_failed'' (Some ''forged'')) = db_org
   \<and> http_status (snd (POST_webhook example_constructEvent ''whsec'' cfg_example 500 db_org
            ''payment_failed'' (Some ''forged''))) = 400"
proof -
  have h: "example_constructEvent ''payment_failed'' ''forged'' ''whsec'' = None"
    by (simp add: example_constructEvent_def)
  then have "Some ''forged'' = None \<or> Some ''forged'' = Some []
         \<or> (\<exists>sig. Some ''forged'' = Some sig \<and>
                example_constructEvent ''payment_failed'' sig ''whsec'' = None)"
    by simp
  from unverified_payload_rejected [where constructEvent = example_constructEvent
      and rawBody = "''payment_failed''" and secret = "''whsec''"
      and signature = "Some ''forged''", OF this] h
  show ?thesis by blast
qed

lemma unhandled_event_acknowledged:
  assumes "constructEvent rawBody sig secret = Some (OtherEvent kind)" and "sig \<noteq> []"
  shows "POST_webhook constructEvent secret cfg now d rawBody (Some sig) =
           (d, \<lparr>http_status = 200, body = ReceivedJson\<rparr>)"
  using assms by (simp add: POST_webhook_def)

lemma update_organization_twice:
  assumes "\<And>r. g (f r) = g r"
  shows "update_organization (update_organization d oid f) oid g = update_organization d oid g"
  using assms by (simp add: update_organization_def split: option.splits)

lemma update_organization_without_time:
  assumes "\<And>r. (g (f r))\<lparr>updated_at := 0\<rparr> = (f r)\<lparr>updated_at := 0\<rparr>"
  shows "without_time (update_organization (update_organization d oid f) oid g) =
         without_time (update_organization d oid f)"
  using assms by (auto simp add: update_organization_def without_time_def fun_eq_iff split: option.splits)

lemma dispatch_twice:
  "dispatch cfg now2 (dispatch cfg now1 d ev) ev = dispatch cfg now2 d ev"
  by (cases ev)
     (simp_all add: handleSubscriptionUpdate_def handleSubscriptionDeleted_def
        handleInvoicePaymentFailed_def handleInvoiceFinalized_def handleCheckoutCompleted_def
        update_organization_twice split: option.splits)

lemma dispatch_twice_without_time:
  "without_time (dispatch cfg now2 (dispatch cfg now1 d ev) ev) = without_time (dispatch cfg now1 d ev)"
  by (cases ev)
     (simp_all add: handleSubscriptionUpdate_def handleSubscriptionDeleted_def
        handleInvoicePaymentFailed_def handleInvoiceFinalized_def handleCheckoutCompleted_def
        update_organization_without_time split: option.splits)

text \<open>
  C4. For every event that passes the verification and every store, processing the event
  a second time leaves the store that processing it once at the later time leaves
  (the write of each handler is computed from the event alone), and, the time of the last
  write apart, the store that the first processing left.
\<close>

theorem redelivery_idempotent:
  assumes "constructEvent rawBody sig secret = Some ev" and "sig \<noteq> []"
  shows "fst (POST_webhook constructEvent secret cfg now2
               (fst (POST_webhook constructEvent secret cfg now1 d rawBody (Some sig)))
               rawBody (Some sig)) =
         fst (POST_webhook constructEvent secret cfg now2 d rawBody (Some sig))
       \<and> without_time (fst (POST_webhook constructEvent secret cfg now2
               (fst (POST_webhook constructEvent secret cfg now1 d rawBody (Some sig)))
               rawBody (Some sig))) =
         without_time (fst (POST_webhook constructEvent secret cfg now1 d rawBody (Some sig)))"
proof (intro conjI)
  show "fst (POST_webhook constructEvent secret cfg now2
               (fst (POST_webhook constructEvent secret cfg now1 d rawBody (Some sig)))
               rawBody (Some sig)) =
         fst (POST_webhook constructEvent secret cfg now2 d rawBody (Some sig))"
    using assms by (simp add: POST_webhook_def dispatch_twice)
  show "without_time (fst (POST_webhook constructEvent secret cfg now2
               (fst (POST_webhook constructEvent secret cfg now1 d rawBody (Some sig)))
               rawBody (Some sig))) =
         without_time (fst (POST_webhook constructEvent secret cfg now1 d rawBody (Some sig)))"
    using assms by (simp add: POST_webhook_def dispatch_twice_without_time)
qed

theorem redelivery_idempotent_witness:
  "example_constructEvent ''payment_failed'' ''whsecpayment_failed'' ''whsec'' =
     Some (InvoicePaymentFailed invoice_example)
   \<and> ''whsecpayment_failed'' \<noteq> []
   \<and> fst (POST_webhook example_constructEvent ''whsec'' cfg_example 700
          (fst (POST_webhook example_constructEvent ''whsec'' cfg_example 500 db_org
                  ''payment_failed'' (Some ''whsecpayment_failed'')))
          ''payment_failed'' (Some ''whsecpayment_failed'')) =
       fst (POST_webhook example_constructEvent ''whsec'' cfg_example 700 db_org
              ''payment_failed'' (Some ''whsecpayment_failed''))"
proof -
  have h1: "example_constructEvent ''payment_failed'' ''whsecpayment_failed'' ''whsec'' =
     Some (InvoicePaymentFailed invoice_example)"
    by (simp add: example_constructEvent_def)
  have h2: "''whsecpayment_failed'' \<noteq> []" by simp
  show ?thesis
    using h1 h2 redelivery_idempotent [where constructEvent = example_constructEvent
      and rawBody = "''payment_failed''" and secret = "''whsec''"
      and sig = "''whsecpayment_failed''", OF h1 h2, of cfg_example 700 500 db_org]
    by blast
qed

text \<open>
  C5. For every invoice payment_failed event whose invoice metadata names an
  organization, processing it sets the status of that organization to \<open>past_due\<close> and
  leaves its plan, seat count, subscription id and customer id as they were; no other
  organization is changed.
\<close>

theorem payment_failed_sets_past_due:
  assumes "optional_organization_id (invoice_metadata invoice) = Some oid" and "oid \<noteq> []"
    and "online d" and "organizations d oid = Some r"
  shows "dispatch cfg now d (InvoicePaymentFailed invoice) =
           d\<lparr>organizations := (organizations d)(oid \<mapsto>
               r\<lparr>subscription_status := Some ''past_due'', updated_at := now\<rparr>)\<rparr>
       \<and> (\<exists>r'. organizations (dispatch cfg now d (InvoicePaymentFailed invoice)) oid = Some r'
            \<and> subscription_status r' = Some ''past_due''
            \<and> subscription_plan r' = subscription_plan r
            \<and> seat_count r' = seat_count r
            \<and> stripe_subscription_id r' = stripe_subscription_id r
            \<and> stripe_customer_id r' = stripe_customer_id r)"
  using assms by (simp add: handleInvoicePaymentFailed_def update_organization_def)

theorem payment_failed_sets_past_due_witness:
  "optional_organization_id (invoice_metadata invoice_example) = Some ''org-1'' \<and> ''org-1'' \<noteq> []
   \<and> online db_org \<and> organizations db_org ''org-1'' = Some org_example
   \<and> organizations (dispatch cfg_example 500 db_org (InvoicePaymentFailed invoice_example)) ''org-1'' =
       Some \<lparr>stripe_customer_id = Some ''cus_1'', stripe_subscription_id = Some ''sub_1'',
             subscription_status = Some ''past_due'', subscription_plan = Some ''starter'',
             seat_count = 2, updated_at = 500\<rparr>"
proof -
  have h1: "optional_organization_id (invoice_metadata invoice_example) = Some ''org-1''"
    by (simp add: optional_organization_id_def invoice_example_def)
  have h2: "''org-1'' \<noteq> []" by simp
  have h3: "online db_org" by (simp add: db_org_def empty_db_def)
  have h4: "organizations db_org ''org-1'' = Some org_example" by (simp add: db_org_def)
  show ?thesis
    using h1 h2 h3 h4 payment_failed_sets_past_due [OF h1 h2 h3 h4, of cfg_example 500]
    by (simp add: org_example_def)
qed

section \<open>Properties of the seat update and of the usage route\<close>

lemma find_map_same_id:
  assumes "\<And>s. subscription_id (g s) = subscription_id s"
  shows "find (\<lambda>s. subscription_id s = sid) (map g subs) =
         map_option g (find (\<lambda>s. subscription_id s = sid) subs)"
  using assms by (induction subs) simp_all

lemma retrieve_Inr:
  "stripe_subscriptions_retrieve st sid = Inr s \<longleftrightarrow>
     find (\<lambda>s. subscription_id s = sid) (subscriptions st) = Some s"
  by (simp add: stripe_subscriptions_retrieve_def split: option.splits)

lemma retrieve_found:
  assumes "stripe_subscriptions_retrieve st sid = Inr s"
  shows "s \<in> set (subscriptions st)" and "subscription_id s = sid"
  using assms by (auto simp add: retrieve_Inr find_Some_iff)

lemma retrieve_after_map:
  assumes "stripe_subscriptions_retrieve st sid = Inr s"
    and "\<And>s. subscription_id (g s) = subscription_id s"
  shows "stripe_subscriptions_retrieve (st\<lparr>subscriptions := map g (subscriptions st)\<rparr>) sid = Inr (g s)"
  using assms by (simp add: retrieve_Inr find_map_same_id)

lemma filter_map_quantity:
  "filter (per_seat cfg)
     (map (\<lambda>it. if item_id it = i then it\<lparr>item_quantity := q\<rparr> else it) its) =
   map (\<lambda>it. if item_id it = i then it\<lparr>item_quantity := q\<rparr> else it) (filter (per_seat cfg) its)"
  by (induction its) (simp_all add: per_seat_def)

lemma seats_present:
  assumes r: "stripe_subscriptions_retrieve st sid = Inr s"
    and f: "filter (per_seat cfg) (items s) = [old]"
    and n: "0 \<le> n"
  shows "\<exists>st' s'. updateSubscriptionSeats cfg st sid n = (st', Inr ())
           \<and> stripe_subscriptions_retrieve st' sid = Inr s'
           \<and> filter (per_seat cfg) (items s') = [old\<lparr>item_quantity := Some (nat n)\<rparr>]
           \<and> length (items s') = length (items s)"
proof -
  let ?upd = "\<lambda>it. if item_id it = item_id old then it\<lparr>item_quantity := Some (nat n)\<rparr> else it"
  let ?g = "\<lambda>s. s\<lparr>items := map ?upd (items s)\<rparr>"
  have fnd: "find (\<lambda>item. price_id item = perSeatPriceId cfg) (items s) = Some old"
    using f by (simp add: find_filter_first per_seat_def [abs_def])
  have "old \<in> set (filter (per_seat cfg) (items s))" using f by simp
  then have "old \<in> set (items s)" by simp
  then have ex: "list_ex (\<lambda>s. list_ex (\<lambda>it. item_id it = item_id old) (items s)) (subscriptions st)"
    using retrieve_found(1) [OF r] by (auto simp add: list_ex_iff)
  have run: "updateSubscriptionSeats cfg st sid n = (st\<lparr>subscriptions := map ?g (subscriptions st)\<rparr>, Inr ())"
    using r fnd ex n by (simp add: updateSubscriptionSeats_def stripe_subscriptionItems_update_def)
  have ret: "stripe_subscriptions_retrieve (st\<lparr>subscriptions := map ?g (subscriptions st)\<rparr>) sid = Inr (?g s)"
    by (rule retrieve_after_map [OF r]) simp
  have flt: "filter (per_seat cfg) (items (?g s)) = [old\<lparr>item_quantity := Some (nat n)\<rparr>]"
    using f by (simp add: filter_map_quantity)
  have len: "length (items (?g s)) = length (items s)" by simp
  show ?thesis using run ret flt len by blast
qed

lemma fold_params_no_per_seat:
  assumes "filter (per_seat cfg) its = []"
    and "\<forall>p \<in> set ps. param_id p \<noteq> None \<and> param_price p \<noteq> perSeatPriceId cfg"
  shows "filter (per_seat cfg) (fst (fold apply_item_param ps (its, k))) = []
       \<and> length (fst (fold apply_item_param ps (its, k))) = length its
       \<and> snd (fold apply_item_param ps (its, k)) = k"
  using assms
proof (induction ps arbitrary: its)
  case Nil
  then show ?case by simp
next
  case (Cons p ps)
  obtain i where i: "param_id p = Some i" using Cons.prems(2) by auto
  let ?its = "map (\<lambda>it. if item_id it = i
                        then it\<lparr>price_id := param_price p,
                               item_quantity :=
                                 (case param_quantity p of
                                    None \<Rightarrow> item_quantity it
                                  | Some q \<Rightarrow> Some (nat q))\<rparr>
                        else it) its"
  have step: "apply_item_param p (its, k) = (?its, k)"
    by (simp add: apply_item_param_def i)
  have "param_price p \<noteq> perSeatPriceId cfg" using Cons.prems(2) by simp
  then have "filter (per_seat cfg) ?its = []"
    using Cons.prems(1) by (induction its) (auto simp add: per_seat_def split: if_splits)
  then show ?case
    using Cons.IH [of ?its] Cons.prems(2) by (simp add: step)
qed

lemma seats_absent:
  assumes r: "stripe_subscriptions_retrieve st sid = Inr s"
    and f: "filter (per_seat cfg) (items s) = []"
    and n: "0 \<le> n"
  shows "\<exists>st' s'. updateSubscriptionSeats cfg st sid n = (st', Inr ())
           \<and> stripe_subscriptions_retrieve st' sid = Inr s'
           \<and> filter (per_seat cfg) (items s') =
               [\<lparr>item_id = next_item_id st, price_id = perSeatPriceId cfg,
                 item_quantity = Some (nat n)\<rparr>]
           \<and> length (items s') = Suc (length (items s))"
proof -
  let ?ps = "map (\<lambda>item. \<lparr>param_id = Some (item_id item), param_price = price_id item,
                                param_quantity = map_option int (item_quantity item)\<rparr>) (items s)"
  let ?new = "\<lparr>param_id = None, param_price = perSeatPriceId cfg, param_quantity = Some n\<rparr>"
  let ?item = "\<lparr>item_id = next_item_id st, price_id = perSeatPriceId cfg,
                 item_quantity = Some (nat n)\<rparr>"
  have fnd: "find (\<lambda>item. price_id item = perSeatPriceId cfg) (items s) = None"
    using f by (simp add: find_filter_first per_seat_def [abs_def])
  have none: "\<forall>it \<in> set (items s). price_id it \<noteq> perSeatPriceId cfg"
    using f by (simp add: filter_empty_conv per_seat_def)
  have ps: "\<forall>p \<in> set ?ps. param_id p \<noteq> None \<and> param_price p \<noteq> perSeatPriceId cfg"
    using none by auto
  obtain its where its: "fold apply_item_param ?ps (items s, next_item_id st) = (its, next_item_id st)"
      and its_f: "filter (per_seat cfg) its = []" and its_l: "length its = length (items s)"
    using fold_params_no_per_seat [OF f ps, of "next_item_id st"]
    by (cases "fold apply_item_param ?ps (items s, next_item_id st)") auto
  have fold_all: "fold apply_item_param (?ps @ [?new]) (items s, next_item_id st) =
                    (its @ [?item], Suc (next_item_id st))"
    by (simp add: its apply_item_param_def)
  have noneg: "\<not> list_ex negative_quantity (?ps @ [?new])"
    using n by (auto simp add: list_ex_iff negative_quantity_def split: option.splits)
  let ?g = "\<lambda>s'. if subscription_id s' = sid then s'\<lparr>items := its @ [?item]\<rparr> else s'"
  let ?st' = "st\<lparr>subscriptions := map ?g (subscriptions st), next_item_id := Suc (next_item_id st)\<rparr>"
  have run: "updateSubscriptionSeats cfg st sid n = (?st', Inr ())"
    using r fnd noneg fold_all
    by (simp add: updateSubscriptionSeats_def stripe_subscriptions_update_def)
  have "stripe_subscriptions_retrieve (st\<lparr>subscriptions := map ?g (subscriptions st)\<rparr>) sid = Inr (?g s)"
    by (rule retrieve_after_map [OF r]) simp
  then have ret: "stripe_subscriptions_retrieve ?st' sid = Inr (s\<lparr>items := its @ [?item]\<rparr>)"
    using retrieve_found(2) [OF r] by (simp add: stripe_subscriptions_retrieve_def)
  have flt: "filter (per_seat cfg) (items (s\<lparr>items := its @ [?item]\<rparr>)) = [?item]"
    using its_f by (simp add: per_seat_def)
  have len: "length (items (s\<lparr>items := its @ [?item]\<rparr>)) = Suc (length (items s))"
    using its_l by simp
  show ?thesis using run ret flt len by blast
qed

lemma POST_update_seats_negative:
  assumes "n < 0"
  shows "POST_update_seats requireOrganizationAccess cfg st
           \<lparr>seats_organizationId = org, seats_seatCount = Some n\<rparr> =
         (st, \<lparr>http_status = 400,
               body = ErrorJson (if truthy org then ''Seat count must be non-negative''
                                 else ''Missing required fields'')\<rparr>)"
  using assms by (cases org) (simp_all add: POST_update_seats_def)

lemma POST_update_seats_granted:
  assumes "0 \<le> n" and "org \<noteq> []"
    and "requireOrganizationAccess org (Some ''admin'') = Some organization"
    and "stripe_subscription_id organization = Some sid" and "sid \<noteq> []"
    and "updateSubscriptionSeats cfg st sid n = (st', Inr ())"
  shows "POST_update_seats requireOrganizationAccess cfg st
           \<lparr>seats_organizationId = Some org, seats_seatCount = Some n\<rparr> =
         (st', \<lparr>http_status = 200, body = SuccessJson\<rparr>)"
  using assms by (simp add: POST_update_seats_def)

lemma seats_once:
  assumes r: "stripe_subscriptions_retrieve st sid = Inr s"
    and f: "length (filter (per_seat cfg) (items s)) \<le> 1"
    and n: "0 \<le> n"
  shows "\<exists>st' s' it. updateSubscriptionSeats cfg st sid n = (st', Inr ())
           \<and> stripe_subscriptions_retrieve st' sid = Inr s'
           \<and> filter (per_seat cfg) (items s') = [it] \<and> item_quantity it = Some (nat n)
           \<and> (case filter (per_seat cfg) (items s) of
                 [] \<Rightarrow> length (items s') = Suc (length (items s))
               | old # _ \<Rightarrow> it = old\<lparr>item_quantity := Some (nat n)\<rparr>
                             \<and> length (items s') = length (items s))"
proof (cases "filter (per_seat cfg) (items s)")
  case Nil
  then show ?thesis using seats_absent [OF r Nil n] by auto
next
  case (Cons old rest)
  then have one: "filter (per_seat cfg) (items s) = [old]" using f by simp
  show ?thesis using seats_present [OF r one n] by (auto simp add: one)
qed

text \<open>
  C6. For every subscription with at most one per-seat item (the provider keeps one item
  per price) and every seat count \<open>n \<ge> 0\<close>, \<open>updateSubscriptionSeats\<close> leaves the
  subscription with exactly one per-seat item, of quantity \<open>n\<close>: an existing item is
  updated in place, and otherwise one item at the per-seat price is added; a second call
  with \<open>m\<close> updates that same item to \<open>m\<close> and adds none. A negative seat count is
  answered with 400 by the route, whatever the provider's state and the authorization
  collaborator are, and the provider's state is unchanged.
\<close>

theorem setSeats_single_per_seat_item:
  assumes "stripe_subscriptions_retrieve st sid = Inr s"
    and "length (filter (per_seat cfg) (items s)) \<le> 1"
  shows "(0 \<le> n \<and> 0 \<le> m \<longrightarrow>
           (\<exists>st' s' it. updateSubscriptionSeats cfg st sid n = (st', Inr ())
              \<and> stripe_subscriptions_retrieve st' sid = Inr s'
              \<and> filter (per_seat cfg) (items s') = [it] \<and> item_quantity it = Some (nat n)
              \<and> (case filter (per_seat cfg) (items s) of
                    [] \<Rightarrow> length (items s') = Suc (length (items s))
                  | old # _ \<Rightarrow> it = old\<lparr>item_quantity := Some (nat n)\<rparr>
                                \<and> length (items s') = length (items s))
              \<and> (\<exists>st'' s''. updateSubscriptionSeats cfg st' sid m = (st'', Inr ())
                    \<and> stripe_subscriptions_retrieve st'' sid = Inr s''
                    \<and> filter (per_seat cfg) (items s'') = [it\<lparr>item_quantity := Some (nat m)\<rparr>]
                    \<and> length (items s'') = length (items s'))))
       \<and> (n < 0 \<longrightarrow>
            POST_update_seats requireOrganizationAccess cfg st
              \<lparr>seats_organizationId = org, seats_seatCount = Some n\<rparr> =
            (st, \<lparr>http_status = 400,
                  body = ErrorJson (if truthy org then ''Seat count must be non-negative''
                                    else ''Missing required fields'')\<rparr>))"
proof (intro conjI impI)
  assume nm: "0 \<le> n \<and> 0 \<le> m"
  obtain st' s' it where run: "updateSubscriptionSeats cfg st sid n = (st', Inr ())"
    and ret: "stripe_subscriptions_retrieve st' sid = Inr s'"
    and one: "filter (per_seat cfg) (items s') = [it]" and q: "item_quantity it = Some (nat n)"
    and shape: "(case filter (per_seat cfg) (items s) of
                    [] \<Rightarrow> length (items s') = Suc (length (items s))
                  | old # _ \<Rightarrow> it = old\<lparr>item_quantity := Some (nat n)\<rparr>
                                \<and> length (items s') = length (items s))"
    using seats_once [OF assms, of n] nm by blast
  have again: "\<exists>st'' s''. updateSubscriptionSeats cfg st' sid m = (st'', Inr ())
                    \<and> stripe_subscriptions_retrieve st'' sid = Inr s''
                    \<and> filter (per_seat cfg) (items s'') = [it\<lparr>item_quantity := Some (nat m)\<rparr>]
                    \<and> length (items s'') = length (items s')"
    using seats_present [OF ret one, of m] nm by simp
  show "\<exists>st' s' it. updateSubscriptionSeats cfg st sid n = (st', Inr ())
              \<and> stripe_subscriptions_retrieve st' sid = Inr s'
              \<and> filter (per_seat cfg) (items s') = [it] \<and> item_quantity it = Some (nat n)
              \<and> (case filter (per_seat cfg) (items s) of
                    [] \<Rightarrow> length (items s') = Suc (length (items s))
                  | old # _ \<Rightarrow> it = old\<lparr>item_quantity := Some (nat n)\<rparr>
                                \<and> length (items s') = length (items s))
              \<and> (\<exists>st'' s''. updateSubscriptionSeats cfg st' sid m = (st'', Inr ())
                    \<and> stripe_subscriptions_retrieve st'' sid = Inr s''
                    \<and> filter (per_seat cfg) (items s'') = [it\<lparr>item_quantity := Some (nat m)\<rparr>]
                    \<and> length (items s'') = length (items s'))"
    using run ret one q shape again by blast
next
  assume "n < 0"
  then show "POST_update_seats requireOrganizationAccess cfg st
              \<lparr>seats_organizationId = org, seats_seatCount = Some n\<rparr> =
            (st, \<lparr>http_status = 400,
                  body = ErrorJson (if truthy org then ''Seat count must be non-negative''
                                    else ''Missing required fields'')\<rparr>)"
    by (rule POST_update_seats_negative)
qed

lemma setSeats_example:
  "updateSubscriptionSeats cfg_example stripe_example ''sub_1'' 3 =
     (stripe_example
        \<lparr>subscriptions :=
           [base_subscription\<lparr>items := items base_subscription @
              [\<lparr>item_id = 2, price_id = ''price_seat'', item_quantity = Some 3\<rparr>]\<rparr>],
         next_item_id := 3\<rparr>,
      Inr ())
   \<and> updateSubscriptionSeats cfg_example
        (fst (updateSubscriptionSeats cfg_example stripe_example ''sub_1'' 3)) ''sub_1'' 5 =
     (stripe_example
        \<lparr>subscriptions :=
           [base_subscription\<lparr>items := items base_subscription @
              [\<lparr>item_id = 2, price_id = ''price_seat'', item_quantity = Some 5\<rparr>]\<rparr>],
         next_item_id := 3\<rparr>,
      Inr ())"
  by (simp add: updateSubscriptionSeats_def stripe_subscriptions_update_def
      stripe_subscriptionItems_update_def stripe_subscriptions_retrieve_def apply_item_param_def
      negative_quantity_def stripe_example_def base_subscription_def cfg_example_def)

theorem setSeats_single_per_seat_item_witness:
  "stripe_subscriptions_retrieve stripe_example ''sub_1'' = Inr base_subscription
   \<and> length (filter (per_seat cfg_example) (items base_subscription)) \<le> 1
   \<and> (\<exists>st' s' it. updateSubscriptionSeats cfg_example stripe_example ''sub_1'' 3 = (st', Inr ())
         \<and> stripe_subscriptions_retrieve st' ''sub_1'' = Inr s'
         \<and> filter (per_seat cfg_example) (items s') = [it] \<and> item_quantity it = Some 3
         \<and> length (items s') = 3
         \<and> (\<exists>st'' s''. updateSubscriptionSeats cfg_example st' ''sub_1'' 5 = (st'', Inr ())
               \<and> stripe_subscriptions_retrieve st'' ''sub_1'' = Inr s''
               \<and> filter (per_seat cfg_example) (items s'') = [it\<lparr>item_quantity := Some 5\<rparr>]
               \<and> length (items s'') = length (items s')))
   \<and> POST_update_seats access_example cfg_example stripe_example
        \<lparr>seats_organizationId = Some ''org-1'', seats_seatCount = Some (- 1)\<rparr> =
      (stripe_example,
       \<lparr>http_status = 400, body = ErrorJson ''Seat count must be non-negative''\<rparr>)"
proof -
  have h1: "stripe_subscriptions_retrieve stripe_example ''sub_1'' = Inr base_subscription"
    by (simp add: stripe_subscriptions_retrieve_def stripe_example_def base_subscription_def)
  have f: "filter (per_seat cfg_example) (items base_subscription) = []"
    by (simp add: per_seat_def cfg_example_def base_subscription_def)
  have h2: "length (filter (per_seat cfg_example) (items base_subscription)) \<le> 1"
    by (simp add: f)
  have len: "length (items base_subscription) = 2" by (simp add: base_subscription_def)
  have pos: "\<exists>st' s' it. updateSubscriptionSeats cfg_example stripe_example ''sub_1'' 3 = (st', Inr ())
         \<and> stripe_subscriptions_retrieve st' ''sub_1'' = Inr s'
         \<and> filter (per_seat cfg_example) (items s') = [it] \<and> item_quantity it = Some 3
         \<and> length (items s') = 3
         \<and> (\<exists>st'' s''. updateSubscriptionSeats cfg_example st' ''sub_1'' 5 = (st'', Inr ())
               \<and> stripe_subscriptions_retrieve st'' ''sub_1'' = Inr s''
               \<and> filter (per_seat cfg_example) (items s'') = [it\<lparr>item_quantity := Some 5\<rparr>]
               \<and> length (items s'') = length (items s'))"
    using setSeats_single_per_seat_item [OF h1 h2, of 3 5]
    by (simp add: f len)
  have neg: "POST_update_seats access_example cfg_example stripe_example
        \<lparr>seats_organizationId = Some ''org-1'', seats_seatCount = Some (- 1)\<rparr> =
      (stripe_example,
       \<lparr>http_status = 400, body = ErrorJson ''Seat count must be non-negative''\<rparr>)"
    using setSeats_single_per_seat_item [OF h1 h2, of "- 1" 0 access_example "Some ''org-1''"]
    by simp
  show ?thesis using h1 h2 pos neg by blast
qed

lemma POST_report_usage_negative:
  assumes "qty < 0"
  shows "POST_report_usage requireOrganizationAccess mk chk cfg now (d, st)
           \<lparr>usage_organizationId = Some org, usage_dimension = Some dim,
            usage_quantity' = Some qty, usage_timestamp' = ts\<rparr> =
         ((d, st), \<lparr>http_status = 400,
               body = ErrorJson (if org \<noteq> [] \<and> dim \<noteq> [] then ''Quantity must be non-negative''
                                 else ''Missing required fields'')\<rparr>)"
  using assms by (simp add: POST_report_usage_def)

text \<open>A timestamp of 0 in the request is falsy: the provider gets none and the row gets the clock.\<close>

lemma POST_report_usage_zero_timestamp:
  "POST_report_usage access_example (\<lambda>n. ''mbur_1'') no_constraint cfg_example 3000
       (empty_db, stripe_example)
       \<lparr>usage_organizationId = Some ''org-1'', usage_dimension = Some ''api_calls'',
        usage_quantity' = Some 5, usage_timestamp' = Some 0\<rparr> =
     ((empty_db\<lparr>usage_records :=
          [\<lparr>organization_id = ''org-1'', dimension = ''api_calls'', quantity = 5,
            timestamp = 3000, stripe_usage_record_id = Some ''mbur_1'', row_id = 0\<rparr>],
          next_id := 1\<rparr>,
       stripe_example\<lparr>usage_events :=
          [\<lparr>usage_item_id = 0, usage_quantity = 5, usage_timestamp = None\<rparr>]\<rparr>),
      \<lparr>http_status = 200, body = UsageRecordJson ''mbur_1''\<rparr>)"
  by (simp add: POST_report_usage_def reportUsage_def stripe_subscriptions_retrieve_def
      insert_usage_def no_constraint_def with_id_def access_example_def org_example_def
      stripe_example_def base_subscription_def cfg_example_def empty_db_def)

end
